theory Spec2Isabelle
  imports Complex_Main "HOL-Library.Word" "HOL-Library.List_Lexorder" "HOL-Library.Char_ord"
    "HOL-Library.Multiset"
begin

unbundle bit_operations_syntax

section \<open>Spacenet Vegas experiment configuration (examples/spacenet/vegas/all.py)\<close>

subsection \<open>Python values, strings and errors\<close>

text \<open>
  Strings are lists of characters. The only case conversions the module performs are
  \<open>target.lower()\<close>, \<open>x.lower()\<close> and \<open>task_type.upper()\<close>, each compared with an
  ASCII constant; the model converts the ASCII letters and keeps every other character.
\<close>

definition lower_char :: "char \<Rightarrow> char" where
  "lower_char c =
     (if CHR ''A'' \<le> c \<and> c \<le> CHR ''Z'' then char_of (of_char c + (32::nat)) else c)"

definition upper_char :: "char \<Rightarrow> char" where
  "upper_char c =
     (if CHR ''a'' \<le> c \<and> c \<le> CHR ''z'' then char_of (of_char c - (32::nat)) else c)"

definition lower :: "string \<Rightarrow> string" where
  "lower s = map lower_char s"

definition upper :: "string \<Rightarrow> string" where
  "upper s = map upper_char s"

text \<open>
  The argument \<open>test\<close> of \<open>exp_main\<close> is dynamically typed: the default is the boolean
  \<open>False\<close>, the command line passes a string, and nothing stops a caller from passing
  another value.
\<close>

datatype pyval = PyBool bool | PyStr string | PyInt int | PyNone

text \<open>Truthiness, as \<open>if test:\<close> reads a value.\<close>

fun truthy :: "pyval \<Rightarrow> bool" where
  "truthy (PyBool b) = b"
| "truthy (PyStr s) = (s \<noteq> [])"
| "truthy (PyInt i) = (i \<noteq> 0)"
| "truthy PyNone = False"

text \<open>
  Every \<open>raise\<close> of the module is a \<open>ValueError\<close> told apart by its message; the
  constructors name the message and carry the formatted argument:
  \<^item> \<open>InvalidTargetCreate t\<close>: \<open>'{} is not a valid target.'\<close> (\<open>SpacenetConfig.create\<close>);
  \<^item> \<open>InvalidTarget t\<close>: \<open>'{} is not a valid target'\<close> (\<open>validate_options\<close>);
  \<^item> \<open>InvalidTaskType t\<close>: \<open>'{} is not a valid task_type'\<close>;
  \<^item> \<open>InvalidTaskForRoads t\<close>: \<open>'{} is not valid task_type for target="roads"'\<close>;
  \<^item> \<open>BadVectorTileOptions\<close>: \<open>'vector_tile_options needs to have 3 comma-delimited values'\<close>;
  \<^item> \<open>ExpectedTrueOrFalse x\<close>: \<open>'{} is expected to be true or false'\<close>;
  \<^item> \<open>NoScenesFound\<close>: \<open>'No scenes found. Something is configured incorrectly.'\<close>;
  \<^item> \<open>InvalidIntLiteral z\<close>: the \<open>ValueError\<close> of \<open>int(zoom)\<close>.
  \<open>AttributeError\<close> is what \<open>label_re.match(label_path).group(1)\<close> raises when the match
  is \<open>None\<close>.
\<close>

datatype error =
    InvalidTargetCreate string
  | InvalidTarget string
  | InvalidTaskType string
  | InvalidTaskForRoads string
  | BadVectorTileOptions
  | ExpectedTrueOrFalse string
  | NoScenesFound
  | InvalidIntLiteral string
  | AttributeError

subsection \<open>\<open>str_to_bool\<close>\<close>

definition str_to_bool :: "pyval \<Rightarrow> error + pyval" where
  "str_to_bool x =
     (case x of
        PyStr s \<Rightarrow>
          (if lower s = ''true'' then Inr (PyBool True)
           else if lower s = ''false'' then Inr (PyBool False)
           else Inl (ExpectedTrueOrFalse s))
      | _ \<Rightarrow> Inr x)"

subsection \<open>Dataset variants\<close>

text \<open>
  \<open>SpacenetConfig\<close> and its two subclasses differ only in the values of their fields; the
  constructors \<open>VegasRoads\<close> and \<open>VegasBuildings\<close> build the record.
\<close>

datatype variant = Roads | Buildings

record spacenet_config =
  variant :: variant
  raw_uri :: string
  base_dir :: string
  raster_dir :: string
  label_dir :: string
  raster_fn_prefix :: string
  label_fn_prefix :: string

definition BUILDINGS :: string where
  "BUILDINGS = ''buildings''"

definition ROADS :: string where
  "ROADS = ''roads''"

definition VegasRoads :: "string \<Rightarrow> spacenet_config" where
  "VegasRoads uri =
     \<lparr>variant = Roads, raw_uri = uri,
      base_dir = ''spacenet/SN3_roads/train/AOI_2_Vegas/'',
      raster_dir = ''PS-RGB/'',
      label_dir = ''geojson_roads/'',
      raster_fn_prefix = ''SN3_roads_train_AOI_2_Vegas_PS-RGB_img'',
      label_fn_prefix = ''SN3_roads_train_AOI_2_Vegas_geojson_roads_img''\<rparr>"

definition VegasBuildings :: "string \<Rightarrow> spacenet_config" where
  "VegasBuildings uri =
     \<lparr>variant = Buildings, raw_uri = uri,
      base_dir = ''spacenet/SN2_buildings/train/AOI_2_Vegas'',
      raster_dir = ''PS-RGB'',
      label_dir = ''geojson_buildings'',
      raster_fn_prefix = ''SN2_buildings_train_AOI_2_Vegas_PS-RGB_img'',
      label_fn_prefix = ''SN2_buildings_train_AOI_2_Vegas_geojson_buildings_img''\<rparr>"

definition create :: "string \<Rightarrow> string \<Rightarrow> error + spacenet_config" where
  "create uri target =
     (if lower target = BUILDINGS then Inr (VegasBuildings uri)
      else if lower target = ROADS then Inr (VegasRoads uri)
      else Inl (InvalidTargetCreate target))"

text \<open>
  \<open>os.path.join\<close> (posixpath): a component that starts with a slash replaces what was
  joined so far; otherwise it is appended, after a slash unless the path so far is empty
  or ends with one.
\<close>

definition path_join2 :: "string \<Rightarrow> string \<Rightarrow> string" where
  "path_join2 path b =
     (if b \<noteq> [] \<and> hd b = CHR ''/'' then b
      else if path = [] \<or> last path = CHR ''/'' then path @ b
      else path @ ''/'' @ b)"

definition os_path_join :: "string \<Rightarrow> string list \<Rightarrow> string" where
  "os_path_join a p = foldl path_join2 a p"

definition get_raster_source_uri :: "spacenet_config \<Rightarrow> string \<Rightarrow> string" where
  "get_raster_source_uri c ident =
     os_path_join (raw_uri c) [base_dir c, raster_dir c, raster_fn_prefix c @ ident @ ''.tif'']"

definition get_geojson_uri :: "spacenet_config \<Rightarrow> string \<Rightarrow> string" where
  "get_geojson_uri c ident =
     os_path_join (raw_uri c) [base_dir c, label_dir c, label_fn_prefix c @ ident @ ''.geojson'']"

subsection \<open>Scene discovery\<close>

text \<open>
  The pattern is \<open>.*{}(\d+)\.geojson\<close> with the label prefix inserted; both prefixes consist
  of letters, digits and underscores, so they stand for themselves. \<open>match_here\<close> is the
  part after \<open>.*\<close>: the prefix, a greedy run of at least one digit (the group), and the
  literal \<open>.geojson\<close>. Giving digits back cannot help, since a digit is not a dot.
\<close>

definition is_digit :: "char \<Rightarrow> bool" where
  "is_digit c \<longleftrightarrow> CHR ''0'' \<le> c \<and> c \<le> CHR ''9''"

definition match_here :: "string \<Rightarrow> string \<Rightarrow> string option" where
  "match_here p s =
     (if take (length p) s = p then
        (let rest = drop (length p) s;
             ds = takeWhile is_digit rest;
             after = dropWhile is_digit rest
         in if ds \<noteq> [] \<and> take 8 after = ''.geojson'' then Some ds else None)
      else None)"

text \<open>
  \<open>label_re.match(label_path)\<close>, returning group 1: the match is anchored at the start
  only; \<open>.*\<close> is greedy and does not cross a newline, so the longest skip is tried first
  and the matcher falls back to shorter ones.
\<close>

fun label_re_match :: "string \<Rightarrow> string \<Rightarrow> string option" where
  "label_re_match p [] = match_here p []"
| "label_re_match p (c # cs) =
     (case (if c = CHR 0x0A then None else label_re_match p cs) of
        Some ds \<Rightarrow> Some ds
      | None \<Rightarrow> match_here p (c # cs))"

text \<open>
  The list comprehension of \<open>get_scene_ids\<close>: the first path without a match raises,
  because \<open>None\<close> has no \<open>group\<close>.
\<close>

fun scene_ids_of :: "string \<Rightarrow> string list \<Rightarrow> error + string list" where
  "scene_ids_of p [] = Inr []"
| "scene_ids_of p (label_path # label_paths) =
     (case label_re_match p label_path of
        None \<Rightarrow> Inl AttributeError
      | Some ds \<Rightarrow>
          (case scene_ids_of p label_paths of
             Inl e \<Rightarrow> Inl e
           | Inr ids \<Rightarrow> Inr (ds # ids)))"

text \<open>
  \<open>list_paths\<close> belongs to the framework and reads the file system; it is the parameter
  \<open>list_paths\<close>, from a directory to the paths with extension \<open>.geojson\<close> found there.
  Calls into the file system and the random module are recorded as events.
\<close>

datatype event = ListPaths string | RandomSeed int | RandomShuffle "string list"

definition label_dir_uri :: "spacenet_config \<Rightarrow> string" where
  "label_dir_uri c = os_path_join (raw_uri c) [base_dir c, label_dir c]"

definition get_scene_ids ::
  "(string \<Rightarrow> string list) \<Rightarrow> spacenet_config \<Rightarrow> event list \<times> (error + string list)" where
  "get_scene_ids list_paths c =
     (let label_paths = list_paths (label_dir_uri c)
      in ([ListPaths (label_dir_uri c)], scene_ids_of (label_fn_prefix c) label_paths))"

text \<open>
  What the pattern describes, read off the regular expression: some text without a
  newline, the prefix, one or more digits, \<open>.geojson\<close>, and whatever follows.
\<close>

definition label_pattern :: "string \<Rightarrow> string \<Rightarrow> bool" where
  "label_pattern p s \<longleftrightarrow>
     (\<exists>pre ds rest. s = pre @ p @ ds @ ''.geojson'' @ rest \<and> CHR 0x0A \<notin> set pre \<and>
        ds \<noteq> [] \<and> (\<forall>c \<in> set ds. is_digit c))"

subsection \<open>The random module\<close>

text \<open>
  The generator of the \<open>random\<close> module is a parameter: \<open>genrand seed\<close> is the sequence of
  32-bit outputs the generator produces once \<open>random.seed(seed)\<close> has run, and a position in
  that sequence is the generator's state. On top of it, \<open>getrandbits\<close>, \<open>_randbelow\<close> and
  \<open>shuffle\<close> are the library's own algorithms.
\<close>

type_synonym rng = "nat \<Rightarrow> 32 word"

fun bit_length :: "nat \<Rightarrow> nat" where
  "bit_length n = (if n = 0 then 0 else Suc (bit_length (n div 2)))"

text \<open>
  \<open>getrandbits(k)\<close>: up to 32 bits are the top bits of one output; more bits take one
  output per 32 bits, least significant word first, the last one shifted.
\<close>

function getrandbits :: "rng \<Rightarrow> nat \<Rightarrow> nat \<Rightarrow> nat \<times> nat" where
  "getrandbits g k pos =
     (if k \<le> 32 then (unat (drop_bit (32 - k) (g pos)), pos + 1)
      else (case getrandbits g (k - 32) (pos + 1) of
              (hi, pos') \<Rightarrow> (unat (g pos) + 2 ^ 32 * hi, pos')))"
  by pat_completeness auto
termination
  by (relation "measure (\<lambda>(g, k, pos). k)") auto

text \<open>
  \<open>_randbelow(n)\<close> draws \<open>n.bit_length()\<close> bits until the value is below \<open>n\<close>. Nothing
  bounds the number of rounds, so not returning is the value \<open>None\<close>.
\<close>

partial_function (option) randbelow_loop :: "rng \<Rightarrow> nat \<Rightarrow> nat \<Rightarrow> nat \<Rightarrow> (nat \<times> nat) option" where
  "randbelow_loop g n k pos =
     (case getrandbits g k pos of
        (r, pos') \<Rightarrow> if r \<ge> n then randbelow_loop g n k pos' else Some (r, pos'))"

declare randbelow_loop.simps [code]

definition randbelow :: "rng \<Rightarrow> nat \<Rightarrow> nat \<Rightarrow> (nat \<times> nat) option" where
  "randbelow g n pos = randbelow_loop g n (bit_length n) pos"

text \<open>
  \<open>shuffle(x)\<close>: for \<open>i\<close> from \<open>len(x) - 1\<close> down to 1, exchange \<open>x[i]\<close> with \<open>x[j]\<close>,
  \<open>j = randbelow(i + 1)\<close>. The first argument of \<open>shuffle_loop\<close> is the number of rounds
  left, which is also the current \<open>i\<close>.
\<close>

fun shuffle_loop :: "rng \<Rightarrow> nat \<Rightarrow> 'a list \<Rightarrow> nat \<Rightarrow> ('a list \<times> nat) option" where
  "shuffle_loop g 0 x pos = Some (x, pos)"
| "shuffle_loop g (Suc i') x pos =
     (case randbelow g (Suc i' + 1) pos of
        None \<Rightarrow> None
      | Some (j, pos') \<Rightarrow> shuffle_loop g i' (x[Suc i' := x ! j, j := x ! Suc i']) pos')"

definition shuffle :: "rng \<Rightarrow> 'a list \<Rightarrow> nat \<Rightarrow> ('a list \<times> nat) option" where
  "shuffle g x pos = shuffle_loop g (length x - 1) x pos"

text \<open>
  The first outputs of CPython's generator (the Mersenne Twister MT19937) after
  \<open>random.seed(5678)\<close>, for the concrete runs below; past the table the sequence is
  continued with zeros, which those runs never read.
\<close>

definition mt19937_5678 :: "32 word list" where
  "mt19937_5678 =
     [2799250716, 963802366, 51737458, 2248451356, 3924363769, 2027723700,
      1987469360, 2648778338, 3433542696, 612779119, 1884086688, 3935356183,
      2409157062, 813494387, 3239271047, 2963723541, 2065507786, 3389111708,
      2375538744, 3860181560, 1037637602, 1710413749, 2354613903, 1353103146,
      1529823204, 1312614389, 3300883777, 4257080338, 4202821438, 558807904,
      4057460065, 528932548, 1216936111, 4012014570, 1135518096, 2012159147,
      1273095283, 1294420633, 3496761137, 2123991250, 1398718914, 3300852678,
      1998628089, 3052081955, 276942712, 2230199084, 2881575842, 1290331561]"

definition python_genrand :: "int \<Rightarrow> rng" where
  "python_genrand seed i = (if seed = 5678 \<and> i < length mt19937_5678 then mt19937_5678 ! i else 0)"

subsection \<open>The train/validation split\<close>

text \<open>
  Python's \<open>round\<close> on a float rounds to the nearest integer, ties to the even one. The
  product \<open>len(scene_ids) * split_ratio\<close> is taken over the reals, with \<open>split_ratio\<close>
  exactly 4/5: the double product is within one unit in the last place of it, and four
  fifths of an integer is never within 0.1 of a tie, so for every list that fits into
  memory the rounded value is the same.
\<close>

definition py_round :: "real \<Rightarrow> int" where
  "py_round x =
     (let f = \<lfloor>x\<rfloor> in
      if x - of_int f < 1 / 2 then f
      else if x - of_int f > 1 / 2 then f + 1
      else if even f then f else f + 1)"

definition split_ratio :: real where
  "split_ratio = 0.8"

text \<open>
  \<open>split_scene_ids\<close> is the body of \<open>build_dataset\<close> from the emptiness check to the two
  truncated ID lists. Each scene is built from its ID alone, so the dataset is modelled by
  the pair of ID lists.
\<close>

definition split_scene_ids ::
  "(int \<Rightarrow> rng) \<Rightarrow> bool \<Rightarrow> string list \<Rightarrow> (event list \<times> (error + string list \<times> string list)) option" where
  "split_scene_ids genrand test scene_ids =
     (if length scene_ids = 0 then Some ([], Inl NoScenesFound)
      else
        (let sorted_ids = sort scene_ids
         in case shuffle (genrand 5678) sorted_ids 0 of
              None \<Rightarrow> None
            | Some (shuffled, pos) \<Rightarrow>
                (let scene_ids = (if ''1000'' \<in> set shuffled then remove1 ''1000'' shuffled
                                  else shuffled);
                     num_train_ids = nat (py_round (real (length scene_ids) * split_ratio));
                     train_ids = take num_train_ids scene_ids;
                     val_ids = drop num_train_ids scene_ids;
                     num_train_scenes = (if test then 16 else length train_ids);
                     num_val_scenes = (if test then 4 else length val_ids);
                     train_ids = take num_train_scenes train_ids;
                     val_ids = take num_val_scenes val_ids
                 in Some ([RandomSeed 5678, RandomShuffle sorted_ids],
                          Inr (train_ids, val_ids)))))"

definition build_dataset ::
  "(string \<Rightarrow> string list) \<Rightarrow> (int \<Rightarrow> rng) \<Rightarrow> spacenet_config \<Rightarrow> bool \<Rightarrow>
     (event list \<times> (error + string list \<times> string list)) option" where
  "build_dataset list_paths genrand c test =
     (case get_scene_ids list_paths c of
        (evs, Inl e) \<Rightarrow> Some (evs, Inl e)
      | (evs, Inr scene_ids) \<Rightarrow>
          (case split_scene_ids genrand test scene_ids of
             None \<Rightarrow> None
           | Some (evs', r) \<Rightarrow> Some (evs @ evs', r)))"

text \<open>
  The split in the order the specification gives: sort, remove "1000", shuffle, partition,
  truncate. It is compared with \<open>split_scene_ids\<close> below.
\<close>

definition spec_split_scene_ids ::
  "(int \<Rightarrow> rng) \<Rightarrow> bool \<Rightarrow> string list \<Rightarrow> (error + string list \<times> string list) option" where
  "spec_split_scene_ids genrand test scene_ids =
     (if scene_ids = [] then Some (Inl NoScenesFound)
      else
        (case shuffle (genrand 5678) (remove1 ''1000'' (sort scene_ids)) 0 of
           None \<Rightarrow> None
         | Some (shuffled, pos) \<Rightarrow>
             (let n = nat (round (real (length shuffled) * 0.8));
                  train_ids = take n shuffled;
                  val_ids = drop n shuffled
              in Some (Inr (if test then (take 16 train_ids, take 4 val_ids)
                            else (train_ids, val_ids))))))"

subsection \<open>Options and the experiment\<close>

text \<open>
  The task-type constants of the framework: \<open>exp_main\<close> documents the task types as
  \<open>'semantic_segmentation'\<close>, \<open>'object_detection'\<close> and \<open>'chip_classification'\<close> and
  compares the upper-cased argument with the constants.
\<close>

definition SEMANTIC_SEGMENTATION :: string where
  "SEMANTIC_SEGMENTATION = ''SEMANTIC_SEGMENTATION''"

definition CHIP_CLASSIFICATION :: string where
  "CHIP_CLASSIFICATION = ''CHIP_CLASSIFICATION''"

definition OBJECT_DETECTION :: string where
  "OBJECT_DETECTION = ''OBJECT_DETECTION''"

text \<open>\<open>s.split(',')\<close>: the fields between the commas, one more than there are commas.\<close>

fun split_comma :: "string \<Rightarrow> string list" where
  "split_comma [] = [[]]"
| "split_comma (c # cs) =
     (if c = CHR '','' then [] # split_comma cs
      else (case split_comma cs of
              [] \<Rightarrow> [[c]]
            | f # fs \<Rightarrow> (c # f) # fs))"

definition validate_options :: "string \<Rightarrow> string \<Rightarrow> string option \<Rightarrow> error + unit" where
  "validate_options task_type target vector_tile_options =
     (if task_type \<notin> set [SEMANTIC_SEGMENTATION, CHIP_CLASSIFICATION, OBJECT_DETECTION]
      then Inl (InvalidTaskType task_type)
      else if target \<notin> set [ROADS, BUILDINGS] then Inl (InvalidTarget target)
      else if target = ROADS \<and> task_type \<in> set [OBJECT_DETECTION]
      then Inl (InvalidTaskForRoads task_type)
      else (case vector_tile_options of
              None \<Rightarrow> Inr ()
            | Some s \<Rightarrow>
                if length (split_comma s) \<noteq> 3 then Inl BadVectorTileOptions else Inr ()))"

text \<open>
  \<open>int(zoom)\<close>: surrounding white space is dropped, a sign may lead, and the digits may be
  grouped by single underscores.
\<close>

definition is_space :: "char \<Rightarrow> bool" where
  "is_space c \<longleftrightarrow> c \<in> set [CHR '' '', CHR 0x09, CHR 0x0A, CHR 0x0B, CHR 0x0C, CHR 0x0D,
                              CHR 0x85, CHR 0xA0]"

definition strip :: "string \<Rightarrow> string" where
  "strip s = rev (dropWhile is_space (rev (dropWhile is_space s)))"

fun int_digits :: "bool \<Rightarrow> int \<Rightarrow> string \<Rightarrow> int option" where
  "int_digits prev acc [] = (if prev then Some acc else None)"
| "int_digits prev acc (c # cs) =
     (if is_digit c then int_digits True (10 * acc + (of_char c - 48)) cs
      else if c = CHR ''_'' \<and> prev then int_digits False acc cs
      else None)"

definition py_int :: "string \<Rightarrow> int option" where
  "py_int s =
     (case strip s of
        [] \<Rightarrow> None
      | c # cs \<Rightarrow>
          if c = CHR ''-'' then map_option uminus (int_digits False 0 cs)
          else if c = CHR ''+'' then int_digits False 0 cs
          else int_digits False 0 (c # cs))"

record vector_tile_options =
  uri :: string
  zoom :: int
  id_field :: string

text \<open>
  \<open>VectorTileOptions.build\<close>; \<open>UnpackError\<close> is the \<open>ValueError\<close> of unpacking a list that
  does not have three elements.
\<close>

datatype build_error = UnpackError | Raised error

definition VectorTileOptions_build :: "string option \<Rightarrow> build_error + vector_tile_options option" where
  "VectorTileOptions_build config_str =
     (case config_str of
        None \<Rightarrow> Inr None
      | Some s \<Rightarrow>
          (case split_comma s of
             [u, z, f] \<Rightarrow>
               (case py_int z of
                  None \<Rightarrow> Inl (Raised (InvalidIntLiteral z))
                | Some n \<Rightarrow> Inr (Some \<lparr>uri = u, zoom = n, id_field = f\<rparr>))
           | _ \<Rightarrow> Inl UnpackError))"

text \<open>
  The experiment, as far as this module determines it: the builders of the framework are
  applied to these values.
\<close>

record experiment_config =
  exp_id :: string
  exp_task_type :: string
  exp_debug :: bool
  exp_vector_tile_options :: "vector_tile_options option"
  exp_train_ids :: "string list"
  exp_val_ids :: "string list"
  exp_root_uri :: string

definition exp_main ::
  "(string \<Rightarrow> string list) \<Rightarrow> (int \<Rightarrow> rng) \<Rightarrow> string \<Rightarrow> string \<Rightarrow> pyval \<Rightarrow> string \<Rightarrow> string \<Rightarrow>
     string option \<Rightarrow> (event list \<times> (build_error + experiment_config)) option" where
  "exp_main list_paths genrand raw root_uri test target task_type vector_tile_options =
     (case str_to_bool test of
        Inl e \<Rightarrow> Some ([], Inl (Raised e))
      | Inr test \<Rightarrow>
          (let ident = target @ ''-'' @ lower task_type;
               task_type = upper task_type
           in case create raw target of
                Inl e \<Rightarrow> Some ([], Inl (Raised e))
              | Inr spacenet_config \<Rightarrow>
                  (case validate_options task_type target vector_tile_options of
                     Inl e \<Rightarrow> Some ([], Inl (Raised e))
                   | Inr _ \<Rightarrow>
                       (case VectorTileOptions_build vector_tile_options of
                          Inl e \<Rightarrow> Some ([], Inl e)
                        | Inr opts \<Rightarrow>
                            (case build_dataset list_paths genrand spacenet_config (truthy test) of
                               None \<Rightarrow> None
                             | Some (evs, Inl e) \<Rightarrow> Some (evs, Inl (Raised e))
                             | Some (evs, Inr (train_ids, val_ids)) \<Rightarrow>
                                 Some (evs, Inr \<lparr>exp_id = ident, exp_task_type = task_type,
                                                 exp_debug = truthy test,
                                                 exp_vector_tile_options = opts,
                                                 exp_train_ids = train_ids,
                                                 exp_val_ids = val_ids,
                                                 exp_root_uri = root_uri\<rparr>))))))"

section \<open>Properties\<close>

subsection \<open>Case conversion on concrete strings\<close>

lemma lower_TRUE: "lower ''TRUE'' = ''true''"
  by code_simp

lemma lower_False: "lower ''False'' = ''false''"
  by code_simp

lemma lower_maybe: "lower ''maybe'' = ''maybe''"
  by code_simp

subsection \<open>The label pattern\<close>

lemma match_here_Some_iff:
  "(\<exists>ds. match_here p s = Some ds) \<longleftrightarrow>
   (\<exists>ds rest. s = p @ ds @ ''.geojson'' @ rest \<and> ds \<noteq> [] \<and> (\<forall>c \<in> set ds. is_digit c))"
proof
  assume "\<exists>ds. match_here p s = Some ds"
  then obtain ds where m: "match_here p s = Some ds" ..
  let ?rest = "drop (length p) s"
  from m have p: "take (length p) s = p"
    and ne: "takeWhile is_digit ?rest \<noteq> []"
    and g: "take 8 (dropWhile is_digit ?rest) = ''.geojson''"
    by (auto simp: match_here_def Let_def split: if_splits)
  have "s = take (length p) s @ ?rest" by simp
  also have "?rest = takeWhile is_digit ?rest @ dropWhile is_digit ?rest" by simp
  also have "dropWhile is_digit ?rest =
      take 8 (dropWhile is_digit ?rest) @ drop 8 (dropWhile is_digit ?rest)"
    by simp
  finally have "s = p @ takeWhile is_digit ?rest @ ''.geojson'' @ drop 8 (dropWhile is_digit ?rest)"
    using p g by simp
  moreover have "\<forall>c \<in> set (takeWhile is_digit ?rest). is_digit c"
    by (auto dest: set_takeWhileD)
  ultimately show "\<exists>ds rest. s = p @ ds @ ''.geojson'' @ rest \<and> ds \<noteq> [] \<and> (\<forall>c \<in> set ds. is_digit c)"
    using ne by blast
next
  assume "\<exists>ds rest. s = p @ ds @ ''.geojson'' @ rest \<and> ds \<noteq> [] \<and> (\<forall>c \<in> set ds. is_digit c)"
  then obtain ds rest where s: "s = p @ ds @ ''.geojson'' @ rest" and ne: "ds \<noteq> []"
    and d: "\<forall>c \<in> set ds. is_digit c" by blast
  have nd: "\<not> is_digit (CHR ''.'')" by (simp add: is_digit_def)
  have tw: "takeWhile is_digit (ds @ ''.geojson'' @ rest) = ds"
    using d nd by (simp add: takeWhile_append2)
  have dw: "dropWhile is_digit (ds @ ''.geojson'' @ rest) = ''.geojson'' @ rest"
    using d nd by (simp add: dropWhile_append2)
  show "\<exists>ds. match_here p s = Some ds"
    using ne tw dw by (simp add: match_here_def s Let_def)
qed

lemma label_pattern_Nil: "label_pattern p [] \<longleftrightarrow> (\<exists>ds. match_here p [] = Some ds)"
  by (simp add: label_pattern_def match_here_Some_iff)

lemma label_pattern_Cons:
  "label_pattern p (c # cs) \<longleftrightarrow>
   (\<exists>ds. match_here p (c # cs) = Some ds) \<or> (c \<noteq> CHR 0x0A \<and> label_pattern p cs)"
proof
  assume "label_pattern p (c # cs)"
  then obtain pre ds rest where s: "c # cs = pre @ p @ ds @ ''.geojson'' @ rest"
    and nl: "CHR 0x0A \<notin> set pre" and ne: "ds \<noteq> []" and d: "\<forall>c \<in> set ds. is_digit c"
    unfolding label_pattern_def by blast
  show "(\<exists>ds. match_here p (c # cs) = Some ds) \<or> (c \<noteq> CHR 0x0A \<and> label_pattern p cs)"
  proof (cases pre)
    case Nil
    with s ne d have "\<exists>ds rest. c # cs = p @ ds @ ''.geojson'' @ rest \<and> ds \<noteq> [] \<and>
        (\<forall>c \<in> set ds. is_digit c)"
      by auto
    then show ?thesis using match_here_Some_iff [of p "c # cs"] by blast
  next
    case (Cons a pre')
    with s nl have "c \<noteq> CHR 0x0A" and "cs = pre' @ p @ ds @ ''.geojson'' @ rest"
      and "CHR 0x0A \<notin> set pre'"
      by auto
    then show ?thesis using ne d unfolding label_pattern_def by blast
  qed
next
  assume "(\<exists>ds. match_here p (c # cs) = Some ds) \<or> (c \<noteq> CHR 0x0A \<and> label_pattern p cs)"
  then show "label_pattern p (c # cs)"
  proof
    assume "\<exists>ds. match_here p (c # cs) = Some ds"
    then obtain ds rest where "c # cs = [] @ p @ ds @ ''.geojson'' @ rest" "ds \<noteq> []"
      "\<forall>c \<in> set ds. is_digit c"
      unfolding match_here_Some_iff by auto
    then show ?thesis unfolding label_pattern_def by (metis empty_iff empty_set)
  next
    assume a: "c \<noteq> CHR 0x0A \<and> label_pattern p cs"
    then obtain pre ds rest where "cs = pre @ p @ ds @ ''.geojson'' @ rest"
      "CHR 0x0A \<notin> set pre" "ds \<noteq> []" "\<forall>c \<in> set ds. is_digit c"
      unfolding label_pattern_def by blast
    with a have "c # cs = (c # pre) @ p @ ds @ ''.geojson'' @ rest" "CHR 0x0A \<notin> set (c # pre)"
      by auto
    then show ?thesis using \<open>ds \<noteq> []\<close> \<open>\<forall>c \<in> set ds. is_digit c\<close>
      unfolding label_pattern_def by blast
  qed
qed

text \<open>The matcher finds a match exactly for the strings the pattern describes.\<close>

lemma label_re_match_iff: "(\<exists>ds. label_re_match p s = Some ds) \<longleftrightarrow> label_pattern p s"
proof (induction s)
  case Nil
  show ?case by (simp add: label_pattern_Nil)
next
  case (Cons c cs)
  show ?case
  proof (cases "c = CHR 0x0A")
    case True
    then show ?thesis by (simp add: label_pattern_Cons)
  next
    case False
    show ?thesis
    proof (cases "label_re_match p cs")
      case None
      with Cons False show ?thesis by (simp add: label_pattern_Cons)
    next
      case (Some a)
      with Cons False show ?thesis by (auto simp add: label_pattern_Cons)
    qed
  qed
qed

lemma scene_ids_of_Inr_iff:
  "(\<exists>ids. scene_ids_of p ps = Inr ids) \<longleftrightarrow> (\<forall>s \<in> set ps. label_pattern p s)"
proof (induction ps)
  case Nil
  show ?case by simp
next
  case (Cons s ps)
  show ?case
  proof (cases "label_re_match p s")
    case None
    then have "\<not> label_pattern p s" using label_re_match_iff [of p s] by simp
    with None show ?thesis by simp
  next
    case (Some ds)
    then have "label_pattern p s" using label_re_match_iff [of p s] by blast
    with Some Cons show ?thesis by (cases "scene_ids_of p ps") auto
  qed
qed

lemma scene_ids_of_Inl: "scene_ids_of p ps = Inl e \<Longrightarrow> e = AttributeError"
  by (induction ps arbitrary: e) (auto split: option.splits sum.splits)

lemma scene_ids_of_length: "scene_ids_of p ps = Inr ids \<Longrightarrow> length ids = length ps"
  by (induction ps arbitrary: ids) (auto split: option.splits sum.splits)

subsection \<open>Rounding four fifths\<close>

lemma py_round_no_tie:
  assumes "x - of_int \<lfloor>x\<rfloor> \<noteq> 1 / 2"
  shows "py_round x = round x"
proof (cases "x - of_int \<lfloor>x\<rfloor> < 1 / 2")
  case True
  then have "round x = \<lfloor>x\<rfloor>"
    by (intro round_unique) linarith+
  with True show ?thesis by (simp add: py_round_def Let_def)
next
  case False
  with assms have gt: "x - of_int \<lfloor>x\<rfloor> > 1 / 2" by simp
  then have "round x = \<lfloor>x\<rfloor> + 1"
    by (intro round_unique) (simp; linarith)+
  with gt show ?thesis by (simp add: py_round_def Let_def)
qed

lemma four_fifths_no_tie: "real n * split_ratio - of_int f \<noteq> 1 / 2"
proof
  assume "real n * split_ratio - of_int f = 1 / 2"
  then have "8 * real n - 10 * of_int f = 5"
    by (simp add: split_ratio_def field_simps)
  then have "(of_int (8 * int n - 10 * f) :: real) = of_int 5" by simp
  then have "8 * int n - 10 * f = 5" by (simp only: of_int_eq_iff)
  then show False by presburger
qed

lemma round_four_fifths: "round (real n * 0.8) = int ((8 * n + 5) div 10)"
proof -
  have "round (real n * 0.8) = \<lfloor>(real (8 * n + 5)) / real 10\<rfloor>"
    unfolding round_def by (simp add: field_simps)
  also have "\<dots> = int ((8 * n + 5) div 10)"
    by (simp only: floor_divide_of_nat_eq)
  finally show ?thesis .
qed

lemma py_round_is_round: "py_round (real n * split_ratio) = round (real n * 0.8)"
  using py_round_no_tie [OF four_fifths_no_tie, of n] by (simp add: split_ratio_def)

lemma num_train_ids_eq: "nat (py_round (real n * split_ratio)) = (8 * n + 5) div 10"
  by (simp only: py_round_is_round round_four_fifths nat_int)

lemma num_train_ids_le: "nat (py_round (real n * split_ratio)) \<le> n"
  unfolding num_train_ids_eq by simp

subsection \<open>The shuffle permutes its argument\<close>

lemma randbelow_loop_less:
  assumes "randbelow_loop g n k pos = Some y"
  shows "fst y < n"
  using assms
proof (rule randbelow_loop.raw_induct [where P = "\<lambda>g n k pos y. fst y < n", rotated])
  fix rl :: "rng \<Rightarrow> nat \<Rightarrow> nat \<Rightarrow> nat \<Rightarrow> (nat \<times> nat) option" and g n k pos y
  assume IH: "\<And>g n k pos y. rl g n k pos = Some y \<Longrightarrow> fst y < n"
    and step: "(case getrandbits g k pos of
                  (r, pos') \<Rightarrow> if n \<le> r then rl g n k pos' else Some (r, pos')) = Some y"
  obtain r pos' where d: "getrandbits g k pos = (r, pos')" by (cases "getrandbits g k pos")
  show "fst y < n"
  proof (cases "n \<le> r")
    case True
    with step d have "rl g n k pos' = Some y" by simp
    then show ?thesis by (rule IH)
  next
    case False
    with step d show ?thesis by auto
  qed
qed

lemma randbelow_less: "randbelow g n pos = Some (r, pos') \<Longrightarrow> r < n"
  unfolding randbelow_def by (drule randbelow_loop_less) simp

lemma shuffle_loop_mset:
  "shuffle_loop g i x pos = Some (y, pos') \<Longrightarrow> i < length x \<Longrightarrow> mset y = mset x"
proof (induction i arbitrary: x pos)
  case 0
  then show ?case by simp
next
  case (Suc i)
  from Suc.prems obtain j p where rb: "randbelow g (Suc i + 1) pos = Some (j, p)"
    and rec: "shuffle_loop g i (x[Suc i := x ! j, j := x ! Suc i]) p = Some (y, pos')"
    by (auto split: option.splits)
  from rb have "j < Suc i + 1" by (rule randbelow_less)
  with Suc.prems have j: "j < length x" by simp
  have "mset y = mset (x[Suc i := x ! j, j := x ! Suc i])"
    using Suc.IH [OF rec] Suc.prems by simp
  also have "\<dots> = mset x"
    using j Suc.prems by (simp add: mset_swap)
  finally show ?case .
qed

lemma shuffle_mset:
  assumes "shuffle g x pos = Some (y, pos')"
  shows "mset y = mset x"
proof (cases x)
  case Nil
  with assms show ?thesis by (simp add: shuffle_def)
next
  case (Cons a as)
  with assms have "shuffle_loop g (length x - 1) x pos = Some (y, pos')"
    "length x - 1 < length x"
    by (simp_all add: shuffle_def)
  then show ?thesis by (rule shuffle_loop_mset)
qed

subsection \<open>Boolean coercion\<close>

text \<open>
  C3, as the specification states it, fails: a value that is neither a string nor a boolean
  is returned unchanged, no error is raised. Here the integer 5.
\<close>

theorem str_to_bool_int_passes_through:
  "str_to_bool (PyInt 5) = Inr (PyInt 5) \<and> \<not> isl (str_to_bool (PyInt 5))"
  by (simp add: str_to_bool_def)

text \<open>
  C3, amended: \<open>str_to_bool\<close> returns \<open>True\<close> for every string equal to "true" and \<open>False\<close>
  for every string equal to "false" under case-insensitive comparison, raises the
  "expected to be true or false" error for every other string, and returns every value
  that is not a string unchanged (native booleans among them).
\<close>

theorem str_to_bool_cases:
  "(lower s = ''true'' \<longrightarrow> str_to_bool (PyStr s) = Inr (PyBool True)) \<and>
   (lower s = ''false'' \<longrightarrow> str_to_bool (PyStr s) = Inr (PyBool False)) \<and>
   (lower s \<noteq> ''true'' \<and> lower s \<noteq> ''false'' \<longrightarrow>
      str_to_bool (PyStr s) = Inl (ExpectedTrueOrFalse s)) \<and>
   str_to_bool (PyBool b) = Inr (PyBool b) \<and>
   ((\<forall>t. x \<noteq> PyStr t) \<longrightarrow> str_to_bool x = Inr x)"
  by (cases x) (auto simp: str_to_bool_def)

theorem str_to_bool_cases_witness:
  "str_to_bool (PyStr ''TRUE'') = Inr (PyBool True) \<and>
   str_to_bool (PyStr ''False'') = Inr (PyBool False) \<and>
   str_to_bool (PyStr ''maybe'') = Inl (ExpectedTrueOrFalse ''maybe'') \<and>
   str_to_bool (PyBool True) = Inr (PyBool True) \<and>
   str_to_bool PyNone = Inr PyNone"
  using str_to_bool_cases [of "''TRUE''" True PyNone]
    str_to_bool_cases [of "''False''" True PyNone]
    str_to_bool_cases [of "''maybe''" True PyNone]
  by (simp add: lower_TRUE lower_False lower_maybe)

subsection \<open>Unfolding the split\<close>

lemma sort_cong_mset: "mset xs = mset ys \<Longrightarrow> sort xs = sort (ys :: 'a::linorder list)"
  by (rule properties_for_sort) simp_all

lemma split_scene_ids_unfold:
  assumes "scene_ids \<noteq> []"
    and "shuffle (genrand 5678) (sort scene_ids) 0 = Some (shuffled, pos)"
  shows "split_scene_ids genrand test scene_ids =
     Some ([RandomSeed 5678, RandomShuffle (sort scene_ids)],
       Inr (take (if test then 16 else (8 * length (remove1 ''1000'' shuffled) + 5) div 10)
              (take ((8 * length (remove1 ''1000'' shuffled) + 5) div 10) (remove1 ''1000'' shuffled)),
            take (if test then 4 else length (remove1 ''1000'' shuffled))
              (drop ((8 * length (remove1 ''1000'' shuffled) + 5) div 10) (remove1 ''1000'' shuffled))))"
proof -
  have r: "\<And>xs. (if ''1000'' \<in> set xs then remove1 ''1000'' xs else xs) = remove1 ''1000'' xs"
    by (simp add: remove1_idem)
  from assms(1) have ne: "length scene_ids \<noteq> 0" by simp
  show ?thesis
    unfolding split_scene_ids_def Let_def r num_train_ids_eq
    using ne assms(2) by (cases test) simp_all
qed

lemma split_scene_ids_Some_shuffle:
  assumes "split_scene_ids genrand test scene_ids = Some (evs, Inr (train, val))"
  shows "scene_ids \<noteq> [] \<and> (\<exists>shuffled pos. shuffle (genrand 5678) (sort scene_ids) 0 = Some (shuffled, pos))"
  using assms unfolding split_scene_ids_def
  by (auto simp: Let_def split: if_splits option.splits)

subsection \<open>Determinism\<close>

text \<open>
  C4: the split is deterministic. The model is a function of the seeded generator, the test
  flag and the discovered IDs, so two runs on the same list agree; beyond that, two runs
  agree whenever they discover the same IDs (with the same multiplicities) in any order,
  because the IDs are sorted before they are shuffled.
\<close>

theorem split_deterministic:
  assumes "mset ids1 = mset ids2"
  shows "split_scene_ids genrand test ids1 = split_scene_ids genrand test ids2"
proof -
  have "sort ids1 = sort ids2" using assms by (rule sort_cong_mset)
  moreover have "length ids1 = length ids2" using assms by (rule mset_eq_length)
  ultimately show ?thesis unfolding split_scene_ids_def by simp
qed

subsection \<open>Sizes of the two parts\<close>

text \<open>
  C5: in non-test mode, for a non-empty discovered ID list on which the shuffle returns,
  with \<open>N\<close> the number of IDs left after "1000" is removed, the train sequence is the
  first \<open>round (N * 0.8)\<close> IDs of the shuffled sequence without "1000", and the validation
  sequence is the remaining \<open>N - round (N * 0.8)\<close> IDs.
\<close>

theorem split_sizes:
  assumes "scene_ids \<noteq> []"
    and "shuffle (genrand 5678) (sort scene_ids) 0 = Some (shuffled, pos)"
  shows "\<exists>evs train val.
     split_scene_ids genrand False scene_ids = Some (evs, Inr (train, val)) \<and>
     (let rest = remove1 ''1000'' shuffled; N = length rest in
        N = length scene_ids - (if ''1000'' \<in> set scene_ids then 1 else 0) \<and>
        int (length train) = round (real N * 0.8) \<and>
        train = take (nat (round (real N * 0.8))) rest \<and>
        val = drop (nat (round (real N * 0.8))) rest \<and>
        length val = N - nat (round (real N * 0.8)))"
proof -
  let ?rest = "remove1 ''1000'' shuffled"
  let ?k = "(8 * length ?rest + 5) div 10"
  have m: "mset shuffled = mset scene_ids"
    using shuffle_mset [OF assms(2)] by simp
  then have s: "set shuffled = set scene_ids" and l: "length shuffled = length scene_ids"
    by (auto dest: mset_eq_setD mset_eq_length)
  have N: "length ?rest = length scene_ids - (if ''1000'' \<in> set scene_ids then 1 else 0)"
    using s l by (simp add: length_remove1)
  have k: "nat (round (real (length ?rest) * 0.8)) = ?k"
    by (simp only: round_four_fifths nat_int)
  have kle: "?k \<le> length ?rest" by simp
  have "split_scene_ids genrand False scene_ids =
      Some ([RandomSeed 5678, RandomShuffle (sort scene_ids)], Inr (take ?k ?rest, drop ?k ?rest))"
    using split_scene_ids_unfold [where genrand = genrand and test = False, OF assms] by simp
  moreover have "int (length (take ?k ?rest)) = round (real (length ?rest) * 0.8)"
    using kle by (simp only: round_four_fifths length_take min_absorb2)
  ultimately show ?thesis
    unfolding Let_def k using N by (intro exI conjI) (assumption | simp)+
qed

subsection \<open>Disjointness and the excluded ID\<close>

text \<open>
  C6, amended: for every discovered ID list without repeated IDs and every mode, the
  train and validation sequences are disjoint, their union is a subset of the discovered
  IDs without "1000", "1000" is in neither sequence, and their combined length is at most
  the number of discovered scenes.
\<close>

theorem split_disjoint:
  assumes "distinct scene_ids"
    and "split_scene_ids genrand test scene_ids = Some (evs, Inr (train, val))"
  shows "set train \<inter> set val = {} \<and> set train \<union> set val \<subseteq> set scene_ids - {''1000''} \<and>
     ''1000'' \<notin> set train \<and> ''1000'' \<notin> set val \<and>
     length train + length val \<le> length scene_ids"
proof -
  from split_scene_ids_Some_shuffle [OF assms(2)] obtain shuffled pos
    where ne: "scene_ids \<noteq> []"
      and sh: "shuffle (genrand 5678) (sort scene_ids) 0 = Some (shuffled, pos)"
    by blast
  let ?rest = "remove1 ''1000'' shuffled"
  let ?k = "(8 * length ?rest + 5) div 10"
  have m: "mset shuffled = mset scene_ids"
    using shuffle_mset [OF sh] by simp
  then have s: "set shuffled = set scene_ids" and l: "length shuffled = length scene_ids"
    by (auto dest: mset_eq_setD mset_eq_length)
  have d: "distinct shuffled"
    using m assms(1) by (metis distinct_count_atmost_1 set_mset_mset)
  then have dr: "distinct ?rest" by simp
  have sr: "set ?rest = set scene_ids - {''1000''}"
    using d s by simp
  have lr: "length ?rest \<le> length scene_ids"
    using l by (simp add: length_remove1)
  from split_scene_ids_unfold [where genrand = genrand and test = test, OF ne sh] assms(2)
  have tr: "train = take (if test then 16 else ?k) (take ?k ?rest)"
    and va: "val = take (if test then 4 else length ?rest) (drop ?k ?rest)"
    by simp_all
  define A where "A = set (take ?k ?rest)"
  define B where "B = set (drop ?k ?rest)"
  define R where "R = set ?rest"
  have t1: "set train \<subseteq> A" unfolding tr A_def by (rule set_take_subset)
  have v1: "set val \<subseteq> B" unfolding va B_def by (rule set_take_subset)
  have disj: "A \<inter> B = {}"
    unfolding A_def B_def using dr by (rule set_take_disj_set_drop_if_distinct) simp
  have t2: "A \<subseteq> R" unfolding A_def R_def by (rule set_take_subset)
  have v2: "B \<subseteq> R" unfolding B_def R_def by (rule set_drop_subset)
  have sr': "R = set scene_ids - {''1000''}" unfolding R_def by (rule sr)
  have len: "length train + length val \<le> length ?rest"
    unfolding tr va by simp
  have c1: "set train \<inter> set val = {}" using t1 v1 disj by blast
  have c2: "set train \<union> set val \<subseteq> set scene_ids - {''1000''}"
    using t1 v1 t2 v2 sr' by blast
  have c3: "''1000'' \<notin> set train" "''1000'' \<notin> set val" using c2 by blast+
  have c4: "length train + length val \<le> length scene_ids" using len lr by (rule order_trans)
  show ?thesis
    using c1 c2 c3 c4 by (intro conjI)
qed

subsection \<open>Test mode\<close>

text \<open>
  C7: in test mode with 20 discovered IDs, none of them "1000", the train sequence has
  exactly 16 IDs and the validation sequence exactly 4, each a prefix of the sequence the
  non-test split produces.
\<close>

theorem test_mode_sizes:
  assumes "length scene_ids = 20" and "''1000'' \<notin> set scene_ids"
    and "shuffle (genrand 5678) (sort scene_ids) 0 = Some (shuffled, pos)"
  shows "\<exists>evs train val.
     split_scene_ids genrand False scene_ids = Some (evs, Inr (train, val)) \<and>
     split_scene_ids genrand True scene_ids = Some (evs, Inr (take 16 train, take 4 val)) \<and>
     length (take 16 train) = 16 \<and> length (take 4 val) = 4"
proof -
  have ne: "scene_ids \<noteq> []" using assms(1) by auto
  have m: "mset shuffled = mset scene_ids"
    using shuffle_mset [OF assms(3)] by simp
  then have s: "set shuffled = set scene_ids" and l: "length shuffled = length scene_ids"
    by (auto dest: mset_eq_setD mset_eq_length)
  have r: "remove1 ''1000'' shuffled = shuffled"
    using s assms(2) by (simp add: remove1_idem)
  have len: "length shuffled = 20" using l assms(1) by simp
  have "split_scene_ids genrand False scene_ids =
      Some ([RandomSeed 5678, RandomShuffle (sort scene_ids)], Inr (take 16 shuffled, drop 16 shuffled))"
    using split_scene_ids_unfold [where genrand = genrand and test = False, OF ne assms(3)] by (simp add: r len)
  moreover have "split_scene_ids genrand True scene_ids =
      Some ([RandomSeed 5678, RandomShuffle (sort scene_ids)],
            Inr (take 16 (take 16 shuffled), take 4 (drop 16 shuffled)))"
    using split_scene_ids_unfold [where genrand = genrand and test = True, OF ne assms(3)] by (simp add: r len)
  moreover have "length (take 16 (take 16 shuffled)) = 16" "length (take 4 (drop 16 shuffled)) = 4"
    using len by simp_all
  ultimately show ?thesis by blast
qed

subsection \<open>Order of the steps\<close>

text \<open>
  C1, amended: for every non-empty discovered ID list on which the shuffle returns, the
  generator is seeded with 5678, the IDs are sorted, the sorted list (with "1000" still in
  it, if it was discovered) is shuffled, and only then is the first "1000" removed from the
  shuffled sequence; the train sequence is a prefix of what remains, and in non-test mode
  train followed by validation is exactly what remains.
\<close>

theorem split_order:
  assumes "scene_ids \<noteq> []"
    and "shuffle (genrand 5678) (sort scene_ids) 0 = Some (shuffled, pos)"
  shows "\<exists>train val.
     split_scene_ids genrand test scene_ids =
       Some ([RandomSeed 5678, RandomShuffle (sort scene_ids)], Inr (train, val)) \<and>
     train = take (length train) (remove1 ''1000'' shuffled) \<and>
     (\<not> test \<longrightarrow> train @ val = remove1 ''1000'' shuffled) \<and>
     (''1000'' \<in> set scene_ids \<longrightarrow> ''1000'' \<in> set (sort scene_ids) \<and> ''1000'' \<in> set shuffled)"
proof -
  let ?rest = "remove1 ''1000'' shuffled"
  let ?k = "(8 * length ?rest + 5) div 10"
  let ?train = "take (if test then 16 else ?k) (take ?k ?rest)"
  let ?val = "take (if test then 4 else length ?rest) (drop ?k ?rest)"
  have m: "mset shuffled = mset scene_ids"
    using shuffle_mset [OF assms(2)] by simp
  then have s: "set shuffled = set scene_ids" by (auto dest: mset_eq_setD)
  have "split_scene_ids genrand test scene_ids =
      Some ([RandomSeed 5678, RandomShuffle (sort scene_ids)], Inr (?train, ?val))"
    by (rule split_scene_ids_unfold [where genrand = genrand, OF assms])
  moreover have "?train = take (length ?train) ?rest"
    by (simp add: min_def)
  moreover have "\<not> test \<longrightarrow> ?train @ ?val = ?rest" by simp
  moreover have "''1000'' \<in> set scene_ids \<longrightarrow> ''1000'' \<in> set (sort scene_ids) \<and> ''1000'' \<in> set shuffled"
    using s by simp
  ultimately show ?thesis by blast
qed

subsection \<open>Concrete runs with CPython's generator\<close>

lemma sort_scenario:
  "sort [''3'', ''1'', ''1000'', ''2'', ''5'', ''4''] = [''1'', ''1000'', ''2'', ''3'', ''4'', ''5'']"
  by code_simp

lemma shuffle_scenario:
  "shuffle (python_genrand 5678) [''1'', ''1000'', ''2'', ''3'', ''4'', ''5''] 0 =
     Some ([''3'', ''4'', ''2'', ''1'', ''1000'', ''5''], 6)"
  by code_simp

lemma shuffle_scenario_spec:
  "shuffle (python_genrand 5678) [''1'', ''2'', ''3'', ''4'', ''5''] 0 =
     Some ([''4'', ''5'', ''3'', ''1'', ''2''], 6)"
  by code_simp

lemma shuffle_sort_scenario:
  "shuffle (python_genrand 5678) (sort [''3'', ''1'', ''1000'', ''2'', ''5'', ''4'']) 0 =
     Some ([''3'', ''4'', ''2'', ''1'', ''1000'', ''5''], 6)"
  by (simp only: sort_scenario shuffle_scenario)

lemma split_scenario:
  "split_scene_ids python_genrand False [''3'', ''1'', ''1000'', ''2'', ''5'', ''4''] =
     Some ([RandomSeed 5678, RandomShuffle [''1'', ''1000'', ''2'', ''3'', ''4'', ''5'']],
           Inr ([''3'', ''4'', ''2'', ''1''], [''5'']))"
proof -
  have ne: "[''3'', ''1'', ''1000'', ''2'', ''5'', ''4''] \<noteq> []" by simp
  show ?thesis
    using split_scene_ids_unfold [where genrand = python_genrand and test = False,
        OF ne shuffle_sort_scenario]
    by (simp add: sort_scenario)
qed

lemma sort_twenty:
  "sort [''120'', ''119'', ''118'', ''117'', ''116'', ''115'', ''114'', ''113'', ''112'', ''111'', ''110'', ''109'', ''108'', ''107'', ''106'', ''105'', ''104'', ''103'', ''102'', ''101''] =
     [''101'', ''102'', ''103'', ''104'', ''105'', ''106'', ''107'', ''108'', ''109'', ''110'', ''111'', ''112'', ''113'', ''114'', ''115'', ''116'', ''117'', ''118'', ''119'', ''120'']"
  by code_simp

lemma shuffle_twenty:
  "shuffle (python_genrand 5678)
     [''101'', ''102'', ''103'', ''104'', ''105'', ''106'', ''107'', ''108'', ''109'', ''110'', ''111'', ''112'', ''113'', ''114'', ''115'', ''116'', ''117'', ''118'', ''119'', ''120''] 0 =
   Some ([''107'', ''119'', ''102'', ''106'', ''114'', ''105'', ''111'', ''118'', ''112'', ''104'', ''109'', ''120'', ''103'', ''113'', ''110'', ''115'', ''116'', ''117'', ''101'', ''108''], 30)"
  by code_simp

lemma shuffle_sort_twenty:
  "shuffle (python_genrand 5678) (sort [''120'', ''119'', ''118'', ''117'', ''116'', ''115'', ''114'', ''113'', ''112'', ''111'', ''110'', ''109'', ''108'', ''107'', ''106'', ''105'', ''104'', ''103'', ''102'', ''101'']) 0 =
   Some ([''107'', ''119'', ''102'', ''106'', ''114'', ''105'', ''111'', ''118'', ''112'', ''104'', ''109'', ''120'', ''103'', ''113'', ''110'', ''115'', ''116'', ''117'', ''101'', ''108''], 30)"
  by (simp only: sort_twenty shuffle_twenty)

lemma shuffle_sevens:
  "shuffle (python_genrand 5678) [''7'', ''7'', ''7''] 0 = Some ([''7'', ''7'', ''7''], 2)"
  by code_simp

text \<open>
  C1, as the specification states it, fails on the specification's own scenario: the
  shuffle is handed the sorted list with "1000" still in it, and the split that results
  (validation gets "5") is not the one that sorting, removing "1000" and then shuffling
  gives (validation gets "2").
\<close>

theorem split_order_counterexample:
  "split_scene_ids python_genrand False [''3'', ''1'', ''1000'', ''2'', ''5'', ''4''] =
     Some ([RandomSeed 5678, RandomShuffle [''1'', ''1000'', ''2'', ''3'', ''4'', ''5'']],
           Inr ([''3'', ''4'', ''2'', ''1''], [''5''])) \<and>
   spec_split_scene_ids python_genrand False [''3'', ''1'', ''1000'', ''2'', ''5'', ''4''] =
     Some (Inr ([''4'', ''5'', ''3'', ''1''], [''2''])) \<and>
   map_option snd (split_scene_ids python_genrand False [''3'', ''1'', ''1000'', ''2'', ''5'', ''4''])
     \<noteq> spec_split_scene_ids python_genrand False [''3'', ''1'', ''1000'', ''2'', ''5'', ''4'']"
proof -
  have r: "round (real (length [''4'', ''5'', ''3'', ''1'', ''2'']) * 0.8) = 4"
    by (simp only: round_four_fifths) simp
  have b: "spec_split_scene_ids python_genrand False [''3'', ''1'', ''1000'', ''2'', ''5'', ''4''] =
      Some (Inr ([''4'', ''5'', ''3'', ''1''], [''2'']))"
    unfolding spec_split_scene_ids_def sort_scenario
    using shuffle_scenario_spec r by (simp add: Let_def)
  show ?thesis unfolding split_scenario b by simp
qed

text \<open>The amended C1 on the same scenario.\<close>

theorem split_order_witness:
  "[''3'', ''1'', ''1000'', ''2'', ''5'', ''4''] \<noteq> [] \<and>
   shuffle (python_genrand 5678) (sort [''3'', ''1'', ''1000'', ''2'', ''5'', ''4'']) 0 =
     Some ([''3'', ''4'', ''2'', ''1'', ''1000'', ''5''], 6) \<and>
   (\<exists>train val.
      split_scene_ids python_genrand False [''3'', ''1'', ''1000'', ''2'', ''5'', ''4''] =
        Some ([RandomSeed 5678, RandomShuffle (sort [''3'', ''1'', ''1000'', ''2'', ''5'', ''4''])], Inr (train, val)) \<and>
      train @ val = [''3'', ''4'', ''2'', ''1'', ''5''])"
proof -
  have ne: "[''3'', ''1'', ''1000'', ''2'', ''5'', ''4''] \<noteq> []" by simp
  from split_order [where genrand = python_genrand and test = False, OF ne shuffle_sort_scenario]
  show ?thesis using ne shuffle_sort_scenario by auto
qed

text \<open>C4 on two orders of the same three IDs.\<close>

theorem split_deterministic_witness:
  "mset [''3'', ''1'', ''2''] = mset [''2'', ''3'', ''1''] \<and>
   split_scene_ids python_genrand False [''3'', ''1'', ''2''] =
   split_scene_ids python_genrand False [''2'', ''3'', ''1'']"
proof -
  have h: "mset [''3'', ''1'', ''2''] = mset [''2'', ''3'', ''1'']" by simp
  from split_deterministic [OF h] h show ?thesis by blast
qed

text \<open>C5 on the scenario: five IDs remain, four go to train and one to validation.\<close>

theorem split_sizes_witness:
  "[''3'', ''1'', ''1000'', ''2'', ''5'', ''4''] \<noteq> [] \<and>
   shuffle (python_genrand 5678) (sort [''3'', ''1'', ''1000'', ''2'', ''5'', ''4'']) 0 =
     Some ([''3'', ''4'', ''2'', ''1'', ''1000'', ''5''], 6) \<and>
   (\<exists>evs train val.
      split_scene_ids python_genrand False [''3'', ''1'', ''1000'', ''2'', ''5'', ''4''] = Some (evs, Inr (train, val)) \<and>
      int (length train) = round (real (5::nat) * 0.8) \<and>
      train = [''3'', ''4'', ''2'', ''1''] \<and> val = [''5''])"
proof -
  have ne: "[''3'', ''1'', ''1000'', ''2'', ''5'', ''4''] \<noteq> []" by simp
  have "nat (round (real (5::nat) * 0.8)) = (8 * 5 + 5) div 10"
    by (simp only: round_four_fifths nat_int)
  then have r: "nat (round (real (5::nat) * 0.8)) = 4" by simp
  from split_sizes [where genrand = python_genrand, OF ne shuffle_sort_scenario]
  obtain evs train val where
    s: "split_scene_ids python_genrand False [''3'', ''1'', ''1000'', ''2'', ''5'', ''4''] = Some (evs, Inr (train, val))"
    and l: "int (length train) = round (real (5::nat) * 0.8)"
    and t: "train = take (nat (round (real (5::nat) * 0.8))) [''3'', ''4'', ''2'', ''1'', ''5'']"
    and v: "val = drop (nat (round (real (5::nat) * 0.8))) [''3'', ''4'', ''2'', ''1'', ''5'']"
    by (auto simp: Let_def)
  from t v have "train = [''3'', ''4'', ''2'', ''1'']" "val = [''5'']"
    unfolding r by simp_all
  with s l ne shuffle_sort_scenario show ?thesis by blast
qed

text \<open>
  C6, as the specification states it, fails when two label files carry the same ID, which
  the leading \<open>.*\<close> of the pattern allows: the ID is then discovered more than once and
  ends up in both sequences.
\<close>

theorem split_disjoint_counterexample:
  "build_dataset
     (\<lambda>d. [d @ ''/a_SN2_buildings_train_AOI_2_Vegas_geojson_buildings_img7.geojson'',
           d @ ''/b_SN2_buildings_train_AOI_2_Vegas_geojson_buildings_img7.geojson'',
           d @ ''/SN2_buildings_train_AOI_2_Vegas_geojson_buildings_img7.geojson''])
     python_genrand (VegasBuildings ''/data'') False =
   Some ([ListPaths ''/data/spacenet/SN2_buildings/train/AOI_2_Vegas/geojson_buildings'',
          RandomSeed 5678, RandomShuffle [''7'', ''7'', ''7'']],
         Inr ([''7'', ''7''], [''7''])) \<and>
   set [''7'', ''7''] \<inter> set [''7''] \<noteq> ({} :: string set)"
proof -
  have g: "get_scene_ids
     (\<lambda>d. [d @ ''/a_SN2_buildings_train_AOI_2_Vegas_geojson_buildings_img7.geojson'',
           d @ ''/b_SN2_buildings_train_AOI_2_Vegas_geojson_buildings_img7.geojson'',
           d @ ''/SN2_buildings_train_AOI_2_Vegas_geojson_buildings_img7.geojson''])
     (VegasBuildings ''/data'') =
     ([ListPaths ''/data/spacenet/SN2_buildings/train/AOI_2_Vegas/geojson_buildings''], Inr [''7'', ''7'', ''7''])"
    by code_simp
  have ne: "[''7'', ''7'', ''7''] \<noteq> ([] :: string list)" by simp
  have sh: "shuffle (python_genrand 5678) (sort [''7'', ''7'', ''7'']) 0 = Some ([''7'', ''7'', ''7''], 2)"
    using shuffle_sevens by simp
  have s: "split_scene_ids python_genrand False [''7'', ''7'', ''7''] =
     Some ([RandomSeed 5678, RandomShuffle [''7'', ''7'', ''7'']], Inr ([''7'', ''7''], [''7'']))"
    using split_scene_ids_unfold [where genrand = python_genrand and test = False, OF ne sh]
    by simp
  show ?thesis by (simp add: build_dataset_def g s)
qed

text \<open>The amended C6 on the scenario.\<close>

theorem split_disjoint_witness:
  "distinct [''3'', ''1'', ''1000'', ''2'', ''5'', ''4''] \<and>
   split_scene_ids python_genrand False [''3'', ''1'', ''1000'', ''2'', ''5'', ''4''] =
     Some ([RandomSeed 5678, RandomShuffle [''1'', ''1000'', ''2'', ''3'', ''4'', ''5'']],
           Inr ([''3'', ''4'', ''2'', ''1''], [''5''])) \<and>
   set [''3'', ''4'', ''2'', ''1''] \<inter> set [''5''] = {} \<and>
   set [''3'', ''4'', ''2'', ''1''] \<union> set [''5''] \<subseteq> set [''3'', ''1'', ''1000'', ''2'', ''5'', ''4''] - {''1000''} \<and>
   ''1000'' \<notin> set [''3'', ''4'', ''2'', ''1''] \<and> ''1000'' \<notin> set [''5''] \<and>
   length [''3'', ''4'', ''2'', ''1''] + length [''5''] \<le> length [''3'', ''1'', ''1000'', ''2'', ''5'', ''4'']"
proof -
  have d: "distinct [''3'', ''1'', ''1000'', ''2'', ''5'', ''4'']" by simp
  from split_disjoint [OF d split_scenario] d split_scenario show ?thesis by blast
qed

text \<open>C7 on the IDs "120" down to "101".\<close>

theorem test_mode_sizes_witness:
  "length [''120'', ''119'', ''118'', ''117'', ''116'', ''115'', ''114'', ''113'', ''112'', ''111'', ''110'', ''109'', ''108'', ''107'', ''106'', ''105'', ''104'', ''103'', ''102'', ''101''] = 20 \<and>
   ''1000'' \<notin> set [''120'', ''119'', ''118'', ''117'', ''116'', ''115'', ''114'', ''113'', ''112'', ''111'', ''110'', ''109'', ''108'', ''107'', ''106'', ''105'', ''104'', ''103'', ''102'', ''101''] \<and>
   shuffle (python_genrand 5678) (sort [''120'', ''119'', ''118'', ''117'', ''116'', ''115'', ''114'', ''113'', ''112'', ''111'', ''110'', ''109'', ''108'', ''107'', ''106'', ''105'', ''104'', ''103'', ''102'', ''101'']) 0 =
     Some ([''107'', ''119'', ''102'', ''106'', ''114'', ''105'', ''111'', ''118'', ''112'', ''104'', ''109'', ''120'', ''103'', ''113'', ''110'', ''115'', ''116'', ''117'', ''101'', ''108''], 30) \<and>
   (\<exists>evs train val.
      split_scene_ids python_genrand False [''120'', ''119'', ''118'', ''117'', ''116'', ''115'', ''114'', ''113'', ''112'', ''111'', ''110'', ''109'', ''108'', ''107'', ''106'', ''105'', ''104'', ''103'', ''102'', ''101''] = Some (evs, Inr (train, val)) \<and>
      split_scene_ids python_genrand True [''120'', ''119'', ''118'', ''117'', ''116'', ''115'', ''114'', ''113'', ''112'', ''111'', ''110'', ''109'', ''108'', ''107'', ''106'', ''105'', ''104'', ''103'', ''102'', ''101''] =
        Some (evs, Inr (take 16 train, take 4 val)) \<and>
      length (take 16 train) = 16 \<and> length (take 4 val) = 4)"
proof -
  have l: "length [''120'', ''119'', ''118'', ''117'', ''116'', ''115'', ''114'', ''113'', ''112'', ''111'', ''110'', ''109'', ''108'', ''107'', ''106'', ''105'', ''104'', ''103'', ''102'', ''101''] = 20" by simp
  have n: "''1000'' \<notin> set [''120'', ''119'', ''118'', ''117'', ''116'', ''115'', ''114'', ''113'', ''112'', ''111'', ''110'', ''109'', ''108'', ''107'', ''106'', ''105'', ''104'', ''103'', ''102'', ''101'']" by simp
  from test_mode_sizes [where genrand = python_genrand, OF l n shuffle_sort_twenty]
    l n shuffle_sort_twenty
  show ?thesis by blast
qed

subsection \<open>No scenes\<close>

text \<open>
  C8: when discovery yields no IDs, dataset construction raises the "No scenes found"
  error at once: the only call recorded is the directory listing of the discovery itself,
  the generator is not seeded and nothing is shuffled.
\<close>

theorem no_scenes_error:
  assumes "snd (get_scene_ids list_paths c) = Inr []"
  shows "build_dataset list_paths genrand c test =
           Some ([ListPaths (label_dir_uri c)], Inl NoScenesFound) \<and>
         split_scene_ids genrand test [] = Some ([], Inl NoScenesFound)"
proof -
  have "get_scene_ids list_paths c = ([ListPaths (label_dir_uri c)], Inr [])"
    using assms by (simp add: get_scene_ids_def Let_def)
  then show ?thesis
    by (simp add: build_dataset_def split_scene_ids_def)
qed

text \<open>C8 on an empty label directory.\<close>

theorem no_scenes_error_witness:
  "snd (get_scene_ids (\<lambda>d. []) (VegasBuildings ''/data'')) = Inr [] \<and>
   build_dataset (\<lambda>d. []) python_genrand (VegasBuildings ''/data'') True =
     Some ([ListPaths (label_dir_uri (VegasBuildings ''/data''))], Inl NoScenesFound)"
proof -
  have h: "snd (get_scene_ids (\<lambda>d. []) (VegasBuildings ''/data'')) = Inr []"
    by (simp add: get_scene_ids_def Let_def)
  from no_scenes_error [OF h, of python_genrand True] h show ?thesis by blast
qed

subsection \<open>Targets and task types\<close>

lemma lower_roads: "lower ''roads'' = ''roads''"
  by code_simp

lemma lower_Buildings: "lower ''Buildings'' = ''buildings''"
  by code_simp

lemma upper_object_detection: "upper ''object_detection'' = ''OBJECT_DETECTION''"
  by code_simp

lemma upper_semantic_segmentation: "upper ''semantic_segmentation'' = ''SEMANTIC_SEGMENTATION''"
  by code_simp

text \<open>
  C9: for target "roads" and a task type that is object detection (in any case), with a
  test flag that \<open>str_to_bool\<close> accepts, experiment construction raises the incompatibility
  error, and no call is recorded before it: neither discovery nor the split has run.
\<close>

theorem roads_object_detection_error:
  assumes "upper task_type = OBJECT_DETECTION"
    and "str_to_bool test = Inr t"
  shows "exp_main list_paths genrand raw root_uri test ''roads'' task_type vector_tile_options =
           Some ([], Inl (Raised (InvalidTaskForRoads OBJECT_DETECTION)))"
proof -
  have c: "create raw ''roads'' = Inr (VegasRoads raw)"
    by (simp add: create_def lower_roads ROADS_def BUILDINGS_def)
  have v: "validate_options OBJECT_DETECTION ''roads'' vector_tile_options =
      Inl (InvalidTaskForRoads OBJECT_DETECTION)"
    by (simp add: validate_options_def ROADS_def BUILDINGS_def)
  show ?thesis
    by (simp add: exp_main_def assms c v Let_def)
qed

text \<open>C9 with the default test flag and no vector-tile options.\<close>

theorem roads_object_detection_error_witness:
  "upper ''object_detection'' = OBJECT_DETECTION \<and>
   str_to_bool (PyBool False) = Inr (PyBool False) \<and>
   exp_main (\<lambda>d. []) python_genrand ''/data'' ''/out'' (PyBool False) ''roads''
     ''object_detection'' None =
     Some ([], Inl (Raised (InvalidTaskForRoads OBJECT_DETECTION)))"
proof -
  have h1: "upper ''object_detection'' = OBJECT_DETECTION"
    by (simp add: upper_object_detection OBJECT_DETECTION_def)
  have h2: "str_to_bool (PyBool False) = Inr (PyBool False)"
    by (simp add: str_to_bool_def)
  from roads_object_detection_error [OF h1 h2] h1 h2 show ?thesis by blast
qed

text \<open>
  C2 does not hold of the code: \<open>SpacenetConfig.create\<close> lower-cases the target and accepts
  "Buildings", but \<open>validate_options\<close>, called next, compares the target as it was given
  and raises the invalid-target error.
\<close>

theorem capitalised_target_rejected:
  "create ''/data'' ''Buildings'' = Inr (VegasBuildings ''/data'') \<and>
   validate_options SEMANTIC_SEGMENTATION ''Buildings'' None = Inl (InvalidTarget ''Buildings'') \<and>
   exp_main (\<lambda>d. []) python_genrand ''/data'' ''/out'' (PyBool False) ''Buildings''
     ''semantic_segmentation'' None =
     Some ([], Inl (Raised (InvalidTarget ''Buildings'')))"
proof -
  have c: "create ''/data'' ''Buildings'' = Inr (VegasBuildings ''/data'')"
    by (simp add: create_def lower_Buildings BUILDINGS_def)
  have v: "validate_options SEMANTIC_SEGMENTATION ''Buildings'' None =
      Inl (InvalidTarget ''Buildings'')"
    by (simp add: validate_options_def ROADS_def BUILDINGS_def SEMANTIC_SEGMENTATION_def
        CHIP_CLASSIFICATION_def OBJECT_DETECTION_def)
  have u: "upper ''semantic_segmentation'' = SEMANTIC_SEGMENTATION"
    by (simp add: upper_semantic_segmentation SEMANTIC_SEGMENTATION_def)
  show ?thesis
    by (simp add: exp_main_def str_to_bool_def c v u Let_def)
qed

subsection \<open>Discovery without a guard\<close>

text \<open>
  C10: scene discovery returns an ID list (one ID per path) exactly when every listed path
  matches the pattern; as soon as one listed path does not, it raises \<open>AttributeError\<close>,
  and so does dataset construction, which never reaches its "No scenes found" check.
\<close>

theorem discovery_unguarded:
  "((\<forall>path \<in> set (list_paths (label_dir_uri c)). label_pattern (label_fn_prefix c) path) \<longrightarrow>
      (\<exists>ids. snd (get_scene_ids list_paths c) = Inr ids \<and>
             length ids = length (list_paths (label_dir_uri c)))) \<and>
   (\<not> (\<forall>path \<in> set (list_paths (label_dir_uri c)). label_pattern (label_fn_prefix c) path) \<longrightarrow>
      snd (get_scene_ids list_paths c) = Inl AttributeError \<and>
      build_dataset list_paths genrand c test =
        Some ([ListPaths (label_dir_uri c)], Inl AttributeError))"
proof -
  let ?ps = "list_paths (label_dir_uri c)"
  let ?p = "label_fn_prefix c"
  have g: "get_scene_ids list_paths c = ([ListPaths (label_dir_uri c)], scene_ids_of ?p ?ps)"
    by (simp add: get_scene_ids_def Let_def)
  show ?thesis
  proof (cases "\<forall>path \<in> set ?ps. label_pattern ?p path")
    case True
    then obtain ids where i: "scene_ids_of ?p ?ps = Inr ids"
      using scene_ids_of_Inr_iff [of ?p ?ps] by blast
    then have "length ids = length ?ps" by (rule scene_ids_of_length)
    with True i g show ?thesis by simp
  next
    case False
    then have "\<not> (\<exists>ids. scene_ids_of ?p ?ps = Inr ids)"
      using scene_ids_of_Inr_iff [of ?p ?ps] by blast
    then obtain e where e: "scene_ids_of ?p ?ps = Inl e"
      by (cases "scene_ids_of ?p ?ps") auto
    then have "e = AttributeError" by (rule scene_ids_of_Inl)
    with e have "scene_ids_of ?p ?ps = Inl AttributeError" by simp
    with False g show ?thesis by (simp add: build_dataset_def)
  qed
qed

lemma match_good_path:
  "label_re_match ''SN2_buildings_train_AOI_2_Vegas_geojson_buildings_img''
     ''/data/spacenet/SN2_buildings/train/AOI_2_Vegas/geojson_buildings/SN2_buildings_train_AOI_2_Vegas_geojson_buildings_img7.geojson'' = Some ''7''"
  by code_simp

lemma match_notes_path:
  "label_re_match ''SN2_buildings_train_AOI_2_Vegas_geojson_buildings_img''
     ''/data/spacenet/SN2_buildings/train/AOI_2_Vegas/geojson_buildings/notes.geojson'' = None"
  by code_simp

lemma buildings_label_dir: "label_dir_uri (VegasBuildings ''/data'') = ''/data/spacenet/SN2_buildings/train/AOI_2_Vegas/geojson_buildings''"
  by code_simp

lemma buildings_label_prefix: "label_fn_prefix (VegasBuildings ''/data'') = ''SN2_buildings_train_AOI_2_Vegas_geojson_buildings_img''"
  by (simp add: VegasBuildings_def)

text \<open>
  C10 on a directory with one label file, and on the same directory with a second
  \<open>.geojson\<close> file whose name does not carry the prefix.
\<close>

theorem discovery_unguarded_witness:
  "(\<exists>ids. snd (get_scene_ids (\<lambda>d. [''/data/spacenet/SN2_buildings/train/AOI_2_Vegas/geojson_buildings/SN2_buildings_train_AOI_2_Vegas_geojson_buildings_img7.geojson'']) (VegasBuildings ''/data'')) = Inr ids \<and>
          length ids = 1) \<and>
   build_dataset (\<lambda>d. [''/data/spacenet/SN2_buildings/train/AOI_2_Vegas/geojson_buildings/SN2_buildings_train_AOI_2_Vegas_geojson_buildings_img7.geojson'', ''/data/spacenet/SN2_buildings/train/AOI_2_Vegas/geojson_buildings/notes.geojson'']) python_genrand
       (VegasBuildings ''/data'') False =
     Some ([ListPaths ''/data/spacenet/SN2_buildings/train/AOI_2_Vegas/geojson_buildings''], Inl AttributeError)"
proof -
  have good: "label_pattern ''SN2_buildings_train_AOI_2_Vegas_geojson_buildings_img'' ''/data/spacenet/SN2_buildings/train/AOI_2_Vegas/geojson_buildings/SN2_buildings_train_AOI_2_Vegas_geojson_buildings_img7.geojson''"
    using label_re_match_iff [of "''SN2_buildings_train_AOI_2_Vegas_geojson_buildings_img''" "''/data/spacenet/SN2_buildings/train/AOI_2_Vegas/geojson_buildings/SN2_buildings_train_AOI_2_Vegas_geojson_buildings_img7.geojson''"] match_good_path by simp
  have bad: "\<not> label_pattern ''SN2_buildings_train_AOI_2_Vegas_geojson_buildings_img'' ''/data/spacenet/SN2_buildings/train/AOI_2_Vegas/geojson_buildings/notes.geojson''"
    using label_re_match_iff [of "''SN2_buildings_train_AOI_2_Vegas_geojson_buildings_img''" "''/data/spacenet/SN2_buildings/train/AOI_2_Vegas/geojson_buildings/notes.geojson''"] match_notes_path by simp
  have h1: "\<forall>path \<in> set [''/data/spacenet/SN2_buildings/train/AOI_2_Vegas/geojson_buildings/SN2_buildings_train_AOI_2_Vegas_geojson_buildings_img7.geojson'']. label_pattern ''SN2_buildings_train_AOI_2_Vegas_geojson_buildings_img'' path"
    using good by simp
  have h2: "\<not> (\<forall>path \<in> set [''/data/spacenet/SN2_buildings/train/AOI_2_Vegas/geojson_buildings/SN2_buildings_train_AOI_2_Vegas_geojson_buildings_img7.geojson'', ''/data/spacenet/SN2_buildings/train/AOI_2_Vegas/geojson_buildings/notes.geojson'']. label_pattern ''SN2_buildings_train_AOI_2_Vegas_geojson_buildings_img'' path)"
    using bad by simp
  from discovery_unguarded [of "\<lambda>d. [''/data/spacenet/SN2_buildings/train/AOI_2_Vegas/geojson_buildings/SN2_buildings_train_AOI_2_Vegas_geojson_buildings_img7.geojson'']" "VegasBuildings ''/data''" python_genrand False]
  have a: "\<exists>ids. snd (get_scene_ids (\<lambda>d. [''/data/spacenet/SN2_buildings/train/AOI_2_Vegas/geojson_buildings/SN2_buildings_train_AOI_2_Vegas_geojson_buildings_img7.geojson'']) (VegasBuildings ''/data'')) = Inr ids \<and>
          length ids = 1"
    using h1 by (simp add: buildings_label_prefix)
  from discovery_unguarded [of "\<lambda>d. [''/data/spacenet/SN2_buildings/train/AOI_2_Vegas/geojson_buildings/SN2_buildings_train_AOI_2_Vegas_geojson_buildings_img7.geojson'', ''/data/spacenet/SN2_buildings/train/AOI_2_Vegas/geojson_buildings/notes.geojson'']" "VegasBuildings ''/data''"
      python_genrand False]
  have b: "build_dataset (\<lambda>d. [''/data/spacenet/SN2_buildings/train/AOI_2_Vegas/geojson_buildings/SN2_buildings_train_AOI_2_Vegas_geojson_buildings_img7.geojson'', ''/data/spacenet/SN2_buildings/train/AOI_2_Vegas/geojson_buildings/notes.geojson'']) python_genrand
       (VegasBuildings ''/data'') False =
     Some ([ListPaths ''/data/spacenet/SN2_buildings/train/AOI_2_Vegas/geojson_buildings''], Inl AttributeError)"
    using h2 by (simp add: buildings_label_prefix buildings_label_dir)
  from a b show ?thesis by blast
qed

end
